theory Spec2Isabelle
  imports Complex_Main "HOL-Library.AList"
begin

text \<open>
  StudyByEnergy: the \<^verbatim>\<open>App\<close> component (energy check-in, activity choice, countdown
  timer, feedback, local persistence) and the Supabase sync client of
  \<^verbatim>\<open>lib/supabase.ts\<close>.  The component is modelled as a record of its \<^verbatim>\<open>useState\<close>
  values together with \<^verbatim>\<open>timerRef\<close> and the browser's \<^verbatim>\<open>localStorage\<close>; a handler
  is a function on that record, and an event is a handler followed by the effects whose
  dependencies changed.
\<close>

section \<open>JavaScript values\<close>

text \<open>
  The component state is typed \<^verbatim>\<open>'low' | 'medium' | 'high' | null\<close> and
  \<^verbatim>\<open>'study' | 'rest' | 'reflect' | null\<close> in TypeScript, but the types are erased at run
  time and the load effect stores whatever \<^verbatim>\<open>JSON.parse\<close> returned.  The two fields are
  therefore modelled as run-time values.  A number is a double: a finite value is carried
  as the rational it denotes, the remaining doubles have a constructor each.
\<close>

datatype jsnumber = Finite rat | NegZero | PosInfinity | NegInfinity | NaN

datatype jsval =
    JUndefined
  | JNull
  | JBool bool
  | JNum jsnumber
  | JStr string
  | JArr "jsval list"
  | JObj "(string \<times> jsval) list"

text \<open>ToBoolean, as used by \<^verbatim>\<open>!x\<close>, \<^verbatim>\<open>x || y\<close>, \<^verbatim>\<open>x && y\<close> and \<^verbatim>\<open>if (x)\<close>.\<close>

fun truthy :: "jsval \<Rightarrow> bool" where
  "truthy JUndefined = False"
| "truthy JNull = False"
| "truthy (JBool b) = b"
| "truthy (JNum n) = (case n of Finite r \<Rightarrow> r \<noteq> 0 | NegZero \<Rightarrow> False | NaN \<Rightarrow> False
                               | PosInfinity \<Rightarrow> True | NegInfinity \<Rightarrow> True)"
| "truthy (JStr s) = (s \<noteq> [])"
| "truthy (JArr xs) = True"
| "truthy (JObj kvs) = True"

text \<open>
  The property read \<^verbatim>\<open>v.name\<close> for the two names the load effect reads
  (\<^verbatim>\<open>energyLevel\<close>, \<^verbatim>\<open>currentActivity\<close>), which no built-in prototype defines: on
  \<^verbatim>\<open>null\<close> and \<^verbatim>\<open>undefined\<close> the read throws a TypeError (\<open>None\<close>), on an object it is
  the own property or \<^verbatim>\<open>undefined\<close>, on every other value it is \<^verbatim>\<open>undefined\<close>.
\<close>

fun get_field :: "jsval \<Rightarrow> string \<Rightarrow> jsval option" where
  "get_field JUndefined name = None"
| "get_field JNull name = None"
| "get_field (JObj kvs) name = Some (case map_of kvs name of None \<Rightarrow> JUndefined | Some v \<Rightarrow> v)"
| "get_field v name = Some JUndefined"

text \<open>
  Whether React can render the value as a child, as in \<^verbatim>\<open>Energy level: {energyLevel}\<close>:
  a plain object is not a valid child and makes the render throw; an array is rendered
  child by child; booleans, \<^verbatim>\<open>null\<close> and \<^verbatim>\<open>undefined\<close> render as nothing.
\<close>

fun renderable :: "jsval \<Rightarrow> bool" where
  "renderable (JObj kvs) = False"
| "renderable (JArr xs) = list_all renderable xs"
| "renderable v = True"


section \<open>The platform\<close>

text \<open>
  What the browser and the Supabase SDK provide is not code of the repository; it is taken
  as a parameter.  \<open>JSON_parse\<close> returns \<open>None\<close> where \<^verbatim>\<open>JSON.parse\<close> throws a SyntaxError.
  A call into the SDK returns, throws, or never settles.
\<close>

datatype 'a outcome = Returns 'a | Throws string | Hangs

record User =
  uid :: string
  email :: string

text \<open>\<^verbatim>\<open>SessionRecord\<close> of \<^verbatim>\<open>lib/supabase.ts\<close>; an optional field that is absent is \<open>None\<close>.\<close>

record SessionRecord =
  id_field :: "string option"
  user_id :: "string option"
  energy_level :: jsval
  activity :: jsval
  duration_minutes :: "int option"
  feedback :: "string option"
  created_at :: "string option"

record platform =
  JSON_parse :: "string \<Rightarrow> jsval option"
  JSON_stringify :: "jsval \<Rightarrow> string"
  VITE_SUPABASE_URL :: "string option"
  VITE_SUPABASE_ANON_KEY :: "string option"
  auth_getUser :: "User option outcome"
  sessions_insert :: "SessionRecord \<Rightarrow> string option outcome"


section \<open>The Remote Sync Client: \<^verbatim>\<open>lib/supabase.ts\<close>\<close>

text \<open>\<^verbatim>\<open>import.meta.env.X || ''\<close>: an unset variable and an empty one both give the empty string.\<close>

definition or_empty :: "string option \<Rightarrow> string" where
  "or_empty v = (case v of None \<Rightarrow> [] | Some s \<Rightarrow> s)"

definition supabaseUrl :: "platform \<Rightarrow> string" where
  "supabaseUrl P = or_empty (VITE_SUPABASE_URL P)"

definition supabaseAnonKey :: "platform \<Rightarrow> string" where
  "supabaseAnonKey P = or_empty (VITE_SUPABASE_ANON_KEY P)"

definition isSupabaseConfigured :: "platform \<Rightarrow> bool" where
  "isSupabaseConfigured P = (supabaseUrl P \<noteq> [] \<and> supabaseAnonKey P \<noteq> [])"

text \<open>
  What an asynchronous function does: the SDK calls and console warnings it makes, in
  order, and how its promise ends.
\<close>

datatype effect =
    AuthGetUser
  | Insert string SessionRecord
  | Warn string string

datatype 'a completion = Fulfilled 'a | Rejected string | Pending

type_synonym 'a run = "effect list \<times> 'a completion"

definition ret :: "'a \<Rightarrow> 'a run" where
  "ret v = ([], Fulfilled v)"

definition await :: "effect \<Rightarrow> 'a outcome \<Rightarrow> 'a run" where
  "await call out =
     ([call], case out of Returns v \<Rightarrow> Fulfilled v | Throws e \<Rightarrow> Rejected e | Hangs \<Rightarrow> Pending)"

definition console_warn :: "string \<Rightarrow> string \<Rightarrow> unit run" where
  "console_warn label detail = ([Warn label detail], Fulfilled ())"

definition bind_run :: "'a run \<Rightarrow> ('a \<Rightarrow> 'b run) \<Rightarrow> 'b run" where
  "bind_run r f =
     (case snd r of
        Fulfilled v \<Rightarrow> (fst r @ fst (f v), snd (f v))
      | Rejected e \<Rightarrow> (fst r, Rejected e)
      | Pending \<Rightarrow> (fst r, Pending))"

definition try_catch :: "'a run \<Rightarrow> (string \<Rightarrow> 'a run) \<Rightarrow> 'a run" where
  "try_catch r handler =
     (case snd r of
        Rejected e \<Rightarrow> (fst r @ fst (handler e), snd (handler e))
      | _ \<Rightarrow> r)"

text \<open>The object literal \<^verbatim>\<open>{ ...session, user_id: user.id, created_at: new Date().toISOString() }\<close>.\<close>

definition insert_payload :: "SessionRecord \<Rightarrow> User \<Rightarrow> string \<Rightarrow> SessionRecord" where
  "insert_payload session user now = session\<lparr>user_id := Some (uid user), created_at := Some now\<rparr>"

text \<open>The body of the \<^verbatim>\<open>try\<close> block of \<^verbatim>\<open>syncSession\<close>.\<close>

definition syncSession_try :: "platform \<Rightarrow> string \<Rightarrow> SessionRecord \<Rightarrow> bool run" where
  "syncSession_try P now session =
     bind_run (await AuthGetUser (auth_getUser P)) (\<lambda>user.
       case user of
         None \<Rightarrow> ret False
       | Some u \<Rightarrow>
           bind_run (await (Insert ''sessions'' (insert_payload session u now))
                       (sessions_insert P (insert_payload session u now))) (\<lambda>error.
             case error of
               Some message \<Rightarrow>
                 bind_run (console_warn ''Cloud sync failed, continuing locally:'' message)
                   (\<lambda>_. ret False)
             | None \<Rightarrow> ret True))"

definition syncSession :: "platform \<Rightarrow> string \<Rightarrow> SessionRecord \<Rightarrow> bool run" where
  "syncSession P now session =
     (if \<not> isSupabaseConfigured P then ret False
      else try_catch (syncSession_try P now session) (\<lambda>error.
             bind_run (console_warn ''Cloud sync error, continuing locally:'' error)
               (\<lambda>_. ret False)))"


section \<open>The component state of \<^verbatim>\<open>App\<close> and the local store\<close>

record app =
  energyLevel :: jsval
  currentActivity :: jsval
  showReflection :: bool
  showTimer :: bool
  timerDuration :: int
  timeRemaining :: int
  isTimerRunning :: bool
  pomodoroEnabled :: bool
  sessionComplete :: bool
  showFeedback :: bool
  timerRef :: bool
  isAuthenticated :: bool
  unmounted :: bool
  localStorage :: "string \<rightharpoonup> string"

text \<open>
  \<open>timerRef\<close> is \<open>True\<close> when \<^verbatim>\<open>timerRef.current\<close> holds the handle of a registered
  interval.  \<open>localStorage\<close> is the browser's store, a map from keys to texts.
  \<open>unmounted\<close> is \<open>True\<close> once a render has thrown: there is no error boundary, so
  React removes the component, and the page shows nothing and raises no event any more.
\<close>

definition STORAGE_KEY :: string where
  "STORAGE_KEY = ''studyByEnergySession''"

text \<open>The values of the \<^verbatim>\<open>useState\<close> initialisers, over a given store.\<close>

definition initial :: "(string \<rightharpoonup> string) \<Rightarrow> app" where
  "initial store =
     \<lparr> energyLevel = JNull, currentActivity = JNull, showReflection = False,
       showTimer = False, timerDuration = 25, timeRemaining = 0, isTimerRunning = False,
       pomodoroEnabled = False, sessionComplete = False, showFeedback = False,
       timerRef = False, isAuthenticated = False, unmounted = False,
       localStorage = store \<rparr>"


subsection \<open>Effects\<close>

text \<open>
  The load effect (only on mount): what it passes to \<^verbatim>\<open>setEnergyLevel\<close> and
  \<^verbatim>\<open>setCurrentActivity\<close>, or \<open>None\<close> when it sets nothing: no stored text, an empty text
  (falsy), a SyntaxError of \<^verbatim>\<open>JSON.parse\<close>, or a TypeError of the property read; the
  \<^verbatim>\<open>catch\<close> only logs.
\<close>

definition load_session :: "platform \<Rightarrow> (string \<rightharpoonup> string) \<Rightarrow> (jsval \<times> jsval) option" where
  "load_session P store =
     (case store STORAGE_KEY of
        None \<Rightarrow> None
      | Some savedSession \<Rightarrow>
          if savedSession = [] then None
          else (case JSON_parse P savedSession of
                  None \<Rightarrow> None
                | Some session \<Rightarrow>
                    (case get_field session ''energyLevel'' of
                       None \<Rightarrow> None
                     | Some e \<Rightarrow>
                         (case get_field session ''currentActivity'' of
                            None \<Rightarrow> None
                          | Some a \<Rightarrow> Some (e, a)))))"

definition session_object :: "jsval \<Rightarrow> jsval \<Rightarrow> string \<Rightarrow> jsval" where
  "session_object e a now =
     JObj [(''energyLevel'', e), (''currentActivity'', a), (''timestamp'', JStr now)]"

text \<open>The save effect, dependencies \<^verbatim>\<open>[energyLevel, currentActivity]\<close>.\<close>

definition save_effect :: "platform \<Rightarrow> string \<Rightarrow> app \<Rightarrow> app" where
  "save_effect P now s =
     (if truthy (energyLevel s) \<or> truthy (currentActivity s)
      then s\<lparr>localStorage := (localStorage s)
               (STORAGE_KEY \<mapsto> JSON_stringify P (session_object (energyLevel s) (currentActivity s) now))\<rparr>
      else s)"

text \<open>The timer effect, dependencies \<^verbatim>\<open>[isTimerRunning]\<close>, and its cleanup.\<close>

definition timer_effect :: "app \<Rightarrow> app" where
  "timer_effect s =
     (if isTimerRunning s \<and> timeRemaining s > 0 then s\<lparr>timerRef := True\<rparr>
      else if \<not> isTimerRunning s \<and> timerRef s then s\<lparr>timerRef := False\<rparr>
      else s)"

definition timer_cleanup :: "app \<Rightarrow> app" where
  "timer_cleanup s = (if timerRef s then s\<lparr>timerRef := False\<rparr> else s)"

text \<open>The callback of the interval: the updater passed to \<^verbatim>\<open>setTimeRemaining\<close>.\<close>

definition interval_callback :: "app \<Rightarrow> app" where
  "interval_callback s =
     (if timeRemaining s \<le> 1
      then s\<lparr>isTimerRunning := False, sessionComplete := True, timeRemaining := 0\<rparr>
      else s\<lparr>timeRemaining := timeRemaining s - 1\<rparr>)"

text \<open>
  After a render React re-runs an effect whose dependencies changed: first the cleanup
  of its previous run, then its body.
\<close>

definition run_effects :: "platform \<Rightarrow> string \<Rightarrow> app \<Rightarrow> app \<Rightarrow> app" where
  "run_effects P now old new =
     (let s1 = (if energyLevel old \<noteq> energyLevel new \<or> currentActivity old \<noteq> currentActivity new
                then save_effect P now new else new)
      in if isTimerRunning old \<noteq> isTimerRunning new then timer_effect (timer_cleanup s1) else s1)"


subsection \<open>Handlers\<close>

definition handleEnergySelect :: "jsval \<Rightarrow> app \<Rightarrow> app" where
  "handleEnergySelect level s = s\<lparr>energyLevel := level, currentActivity := JNull\<rparr>"

definition handleActivitySelect :: "jsval \<Rightarrow> app \<Rightarrow> app" where
  "handleActivitySelect act s =
     (let s1 = s\<lparr>currentActivity := act, showTimer := False, sessionComplete := False,
                 showFeedback := False\<rparr>
      in if act = JStr ''reflect'' then s1\<lparr>showReflection := True\<rparr> else s1)"

definition handleReset :: "app \<Rightarrow> app" where
  "handleReset s =
     (let s1 = s\<lparr>energyLevel := JNull, currentActivity := JNull, showReflection := False,
                 showTimer := False, isTimerRunning := False, timeRemaining := 0,
                 sessionComplete := False, showFeedback := False\<rparr>;
          s2 = (if timerRef s1 then s1\<lparr>timerRef := False\<rparr> else s1)
      in s2\<lparr>localStorage := (localStorage s2)(STORAGE_KEY := None)\<rparr>)"

definition handleStartTimer :: "app \<Rightarrow> app" where
  "handleStartTimer s =
     s\<lparr>showTimer := True, timeRemaining := timerDuration s * 60, sessionComplete := False\<rparr>"

definition handlePlayPause :: "app \<Rightarrow> app" where
  "handlePlayPause s = s\<lparr>isTimerRunning := \<not> isTimerRunning s\<rparr>"

definition handleResetTimer :: "app \<Rightarrow> app" where
  "handleResetTimer s =
     s\<lparr>isTimerRunning := False, timeRemaining := timerDuration s * 60, sessionComplete := False\<rparr>"

text \<open>
  \<^verbatim>\<open>handleCompleteFeedback\<close> returns the next state together with the calls of
  \<^verbatim>\<open>syncSession\<close> it launched without awaiting them: the record passed, and the run of
  \<^verbatim>\<open>syncSession(record).catch(...)\<close>.
\<close>

definition background_sync :: "platform \<Rightarrow> string \<Rightarrow> SessionRecord \<Rightarrow> unit run" where
  "background_sync P now sessionRecord =
     try_catch (bind_run (syncSession P now sessionRecord) (\<lambda>_. ret ()))
       (\<lambda>err. console_warn ''Background sync failed:'' err)"

definition handleCompleteFeedback ::
  "platform \<Rightarrow> string \<Rightarrow> string option \<Rightarrow> app \<Rightarrow> app \<times> (SessionRecord \<times> unit run) list" where
  "handleCompleteFeedback P now fb s =
     (let launched =
            (if isAuthenticated s \<and> truthy (energyLevel s) \<and> truthy (currentActivity s)
             then (let sessionRecord =
                         \<lparr> id_field = None, user_id = None, energy_level = energyLevel s,
                           activity = currentActivity s,
                           duration_minutes = Some (timerDuration s), feedback = fb,
                           created_at = None \<rparr>
                   in [(sessionRecord, background_sync P now sessionRecord)])
             else [])
      in (handleReset (s\<lparr>showFeedback := False\<rparr>), launched))"


subsection \<open>Events and what the rendered page offers\<close>

datatype event =
    SelectEnergy jsval
  | SelectActivity jsval
  | Reset
  | SetTimerDuration int
  | SetPomodoroEnabled bool
  | StartTimer
  | PlayPause
  | ResetTimer
  | RequestFeedback
  | CompleteFeedback "string option"
  | Tick
  | AuthChange bool

text \<open>The state update an event makes; a tick only fires while an interval is registered.\<close>

fun handle :: "platform \<Rightarrow> string \<Rightarrow> event \<Rightarrow> app \<Rightarrow> app" where
  "handle P now (SelectEnergy level) s = handleEnergySelect level s"
| "handle P now (SelectActivity act) s = handleActivitySelect act s"
| "handle P now Reset s = handleReset s"
| "handle P now (SetTimerDuration d) s = s\<lparr>timerDuration := d\<rparr>"
| "handle P now (SetPomodoroEnabled b) s = s\<lparr>pomodoroEnabled := b\<rparr>"
| "handle P now StartTimer s = handleStartTimer s"
| "handle P now PlayPause s = handlePlayPause s"
| "handle P now ResetTimer s = handleResetTimer s"
| "handle P now RequestFeedback s = s\<lparr>showFeedback := True\<rparr>"
| "handle P now (CompleteFeedback fb) s = fst (handleCompleteFeedback P now fb s)"
| "handle P now Tick s = (if timerRef s then interval_callback s else s)"
| "handle P now (AuthChange b) s = s\<lparr>isAuthenticated := b\<rparr>"

definition step :: "platform \<Rightarrow> string \<Rightarrow> event \<Rightarrow> app \<Rightarrow> app" where
  "step P now ev s = run_effects P now s (handle P now ev s)"

text \<open>
  The branch of the JSX conditional that is rendered, named after the state of the
  session cycle it shows.
\<close>

datatype screen = Idle | EnergyChosen | TimerComplete | FeedbackPrompt | ActivityChosen | TimerRunning

definition screen :: "app \<Rightarrow> screen" where
  "screen s =
     (if \<not> truthy (energyLevel s) then Idle
      else if \<not> truthy (currentActivity s) then EnergyChosen
      else if sessionComplete s \<and> \<not> showFeedback s then TimerComplete
      else if showFeedback s then FeedbackPrompt
      else if \<not> showTimer s then ActivityChosen
      else TimerRunning)"

text \<open>
  The events the rendered page can raise: the \<^verbatim>\<open>onClick\<close> and \<^verbatim>\<open>onChange\<close> handlers of
  the branch shown (the range input has \<^verbatim>\<open>min="5" max="90" step="5"\<close>), a tick of a
  registered interval, and a notification of the CloudSync component; none once the
  component is removed.
\<close>

fun offered :: "app \<Rightarrow> event \<Rightarrow> bool" where
  "offered s (SelectEnergy level) =
     (\<not> unmounted s \<and> screen s = Idle
      \<and> level \<in> {JStr ''low'', JStr ''medium'', JStr ''high''})"
| "offered s (SelectActivity act) =
     (\<not> unmounted s \<and> screen s = EnergyChosen
      \<and> act \<in> {JStr ''study'', JStr ''rest'', JStr ''reflect''})"
| "offered s Reset =
     (\<not> unmounted s
      \<and> screen s \<in> {EnergyChosen, TimerComplete, ActivityChosen, TimerRunning})"
| "offered s (SetTimerDuration d) =
     (\<not> unmounted s \<and> screen s = ActivityChosen \<and> currentActivity s \<noteq> JStr ''reflect''
      \<and> 5 \<le> d \<and> d \<le> 90 \<and> d mod 5 = 0)"
| "offered s (SetPomodoroEnabled b) =
     (\<not> unmounted s \<and> screen s = ActivityChosen \<and> currentActivity s \<noteq> JStr ''reflect'')"
| "offered s StartTimer =
     (\<not> unmounted s \<and> screen s = ActivityChosen \<and> currentActivity s \<noteq> JStr ''reflect'')"
| "offered s PlayPause = (\<not> unmounted s \<and> screen s = TimerRunning)"
| "offered s ResetTimer = (\<not> unmounted s \<and> screen s = TimerRunning)"
| "offered s RequestFeedback = (\<not> unmounted s \<and> screen s = TimerComplete)"
| "offered s (CompleteFeedback fb) =
     (\<not> unmounted s \<and> screen s = FeedbackPrompt
      \<and> fb \<in> {Some ''good'', Some ''okay'', Some ''could_be_better'', None})"
| "offered s Tick = (\<not> unmounted s \<and> timerRef s)"
| "offered s (AuthChange b) = (\<not> unmounted s)"


text \<open>
  The one place where a stored value is rendered as a child is the line
  \<^verbatim>\<open>Energy level: {energyLevel}\<close> of the activity choice.
\<close>

definition render_throws :: "app \<Rightarrow> bool" where
  "render_throws s = (screen s = EnergyChosen \<and> \<not> renderable (energyLevel s))"

text \<open>
  Mounting the component over a store: the first render shows the initial values; the
  load effect reads the store, the save and timer effects run on the initial values,
  then the loaded values are rendered and the effects run again.  When the render of
  the loaded values throws, React removes the component and commits no effect of that
  render: the store is left as it was.
\<close>

definition mount :: "platform \<Rightarrow> string \<Rightarrow> (string \<rightharpoonup> string) \<Rightarrow> app" where
  "mount P now store =
     (let s0 = timer_effect (save_effect P now (initial store))
      in case load_session P store of
           None \<Rightarrow> s0
         | Some (e, a) \<Rightarrow>
             (let s1 = s0\<lparr>energyLevel := e, currentActivity := a\<rparr>
              in if render_throws s1 then s1\<lparr>unmounted := True\<rparr>
                 else run_effects P now s0 s1))"

text \<open>The states a running instance can be in.\<close>

inductive reachable :: "platform \<Rightarrow> app \<Rightarrow> bool" for P :: platform where
  reachable_mount: "reachable P (mount P now store)"
| reachable_step: "reachable P s \<Longrightarrow> offered s ev \<Longrightarrow> reachable P (step P now ev s)"

fun run_events :: "platform \<Rightarrow> string \<Rightarrow> event list \<Rightarrow> app \<Rightarrow> app" where
  "run_events P now [] s = s"
| "run_events P now (ev # evs) s = run_events P now evs (step P now ev s)"

fun offered_run :: "platform \<Rightarrow> string \<Rightarrow> event list \<Rightarrow> app \<Rightarrow> bool" where
  "offered_run P now [] s = True"
| "offered_run P now (ev # evs) s = (offered s ev \<and> offered_run P now evs (step P now ev s))"

primrec ticks :: "platform \<Rightarrow> string \<Rightarrow> nat \<Rightarrow> app \<Rightarrow> app" where
  "ticks P now 0 s = s"
| "ticks P now (Suc n) s = ticks P now n (step P now Tick s)"

text \<open>What holds of the timer fields in every state a running instance can be in.\<close>

definition timer_invariant :: "app \<Rightarrow> bool" where
  "timer_invariant s \<longleftrightarrow>
     5 \<le> timerDuration s \<and> timerDuration s \<le> 90
   \<and> 0 \<le> timeRemaining s \<and> timeRemaining s \<le> timerDuration s * 60
   \<and> timerRef s = isTimerRunning s
   \<and> (isTimerRunning s \<longrightarrow> showTimer s \<and> \<not> sessionComplete s)
   \<and> (\<not> (truthy (energyLevel s) \<and> truthy (currentActivity s)) \<longrightarrow> \<not> showTimer s)
   \<and> (sessionComplete s \<longrightarrow> timeRemaining s = 0 \<and> showTimer s)
   \<and> (showFeedback s \<longrightarrow> sessionComplete s)
   \<and> (showTimer s \<and> \<not> sessionComplete s \<longrightarrow> timeRemaining s > 0)
   \<and> (\<not> showTimer s \<longrightarrow> timeRemaining s = 0)
   \<and> (\<not> truthy (energyLevel s) \<longrightarrow> \<not> showReflection s)
   \<and> (unmounted s \<longrightarrow> truthy (energyLevel s) \<and> \<not> truthy (currentActivity s))"


section \<open>A reference platform for concrete runs\<close>

text \<open>
  The theorems below hold for every platform.  To run the model on concrete inputs a
  platform is needed: this one reads and writes the fragment of JSON without numbers
  and without escape sequences in strings (the reader rejects everything else; the
  writer writes atoms and objects of atoms), which covers what the save effect writes
  for the values the handlers set.
\<close>

datatype token = TLBrace | TRBrace | TLBracket | TRBracket | TColon | TComma
  | TString string | TNull | TTrue | TFalse

datatype lexmode = Outside | InString string | InWord string

definition word_token :: "string \<Rightarrow> token option" where
  "word_token w =
     (if w = ''null'' then Some TNull else if w = ''true'' then Some TTrue
      else if w = ''false'' then Some TFalse else None)"

definition punctuation :: "char \<Rightarrow> token option" where
  "punctuation c =
     (if c = CHR ''{'' then Some TLBrace else if c = CHR ''}'' then Some TRBrace
      else if c = CHR ''['' then Some TLBracket else if c = CHR '']'' then Some TRBracket
      else if c = CHR '':'' then Some TColon else if c = CHR '','' then Some TComma
      else None)"

definition is_space :: "char \<Rightarrow> bool" where
  "is_space c = (c \<in> {CHR '' '', CHR 0x0A, CHR 0x0D, CHR 0x09})"

definition is_letter :: "char \<Rightarrow> bool" where
  "is_letter c = (of_char c \<ge> (97::nat) \<and> of_char c \<le> (122::nat))"

fun lex :: "lexmode \<Rightarrow> string \<Rightarrow> token list option" where
  "lex Outside [] = Some []"
| "lex (InString acc) [] = None"
| "lex (InWord acc) [] = map_option (\<lambda>t. [t]) (word_token (rev acc))"
| "lex Outside (c # cs) =
     (if is_space c then lex Outside cs
      else if c = CHR 0x22 then lex (InString []) cs
      else if is_letter c then lex (InWord [c]) cs
      else (case punctuation c of
              None \<Rightarrow> None
            | Some t \<Rightarrow> map_option ((#) t) (lex Outside cs)))"
| "lex (InString acc) (c # cs) =
     (if c = CHR 0x22 then map_option ((#) (TString (rev acc))) (lex Outside cs)
      else if c = CHR 0x5C \<or> of_char c < (32::nat) then None
      else lex (InString (c # acc)) cs)"
| "lex (InWord acc) (c # cs) =
     (if is_letter c then lex (InWord (c # acc)) cs
      else (case word_token (rev acc) of
              None \<Rightarrow> None
            | Some t \<Rightarrow>
                if is_space c then map_option ((#) t) (lex Outside cs)
                else (case punctuation c of
                        None \<Rightarrow> None
                      | Some p \<Rightarrow> map_option (\<lambda>ts. t # p # ts) (lex Outside cs))))"

text \<open>
  Recursive descent over the tokens; the first argument bounds the depth of the
  recursion, and a later member of an object replaces an earlier one of the same name.
\<close>

fun parse_value :: "nat \<Rightarrow> token list \<Rightarrow> (jsval \<times> token list) option"
  and parse_elements :: "nat \<Rightarrow> jsval list \<Rightarrow> token list \<Rightarrow> (jsval \<times> token list) option"
  and parse_members ::
    "nat \<Rightarrow> (string \<times> jsval) list \<Rightarrow> token list \<Rightarrow> (jsval \<times> token list) option"
where
  "parse_value 0 ts = None"
| "parse_value (Suc n) [] = None"
| "parse_value (Suc n) (t # ts) =
     (case t of
        TNull \<Rightarrow> Some (JNull, ts)
      | TTrue \<Rightarrow> Some (JBool True, ts)
      | TFalse \<Rightarrow> Some (JBool False, ts)
      | TString s \<Rightarrow> Some (JStr s, ts)
      | TLBracket \<Rightarrow>
          (case ts of TRBracket # rest \<Rightarrow> Some (JArr [], rest) | _ \<Rightarrow> parse_elements n [] ts)
      | TLBrace \<Rightarrow>
          (case ts of TRBrace # rest \<Rightarrow> Some (JObj [], rest) | _ \<Rightarrow> parse_members n [] ts)
      | _ \<Rightarrow> None)"
| "parse_elements 0 acc ts = None"
| "parse_elements (Suc n) acc ts =
     (case parse_value n ts of
        None \<Rightarrow> None
      | Some (v, rest) \<Rightarrow>
          (case rest of
             TComma # rest' \<Rightarrow> parse_elements n (acc @ [v]) rest'
           | TRBracket # rest' \<Rightarrow> Some (JArr (acc @ [v]), rest')
           | _ \<Rightarrow> None))"
| "parse_members 0 acc ts = None"
| "parse_members (Suc n) acc ts =
     (case ts of
        TString k # TColon # ts' \<Rightarrow>
          (case parse_value n ts' of
             None \<Rightarrow> None
           | Some (v, rest) \<Rightarrow>
               (case rest of
                  TComma # rest' \<Rightarrow> parse_members n (AList.update k v acc) rest'
                | TRBrace # rest' \<Rightarrow> Some (JObj (AList.update k v acc), rest')
                | _ \<Rightarrow> None))
      | _ \<Rightarrow> None)"

definition parse_reference :: "string \<Rightarrow> jsval option" where
  "parse_reference text =
     (case lex Outside text of
        None \<Rightarrow> None
      | Some ts \<Rightarrow>
          (case parse_value (Suc (length ts)) ts of
             Some (v, []) \<Rightarrow> Some v
           | _ \<Rightarrow> None))"

fun join_with :: "string \<Rightarrow> string list \<Rightarrow> string" where
  "join_with sep [] = []"
| "join_with sep [x] = x"
| "join_with sep (x # y # ys) = x @ sep @ join_with sep (y # ys)"

definition quoted :: "string \<Rightarrow> string" where
  "quoted s = CHR 0x22 # s @ [CHR 0x22]"

fun atom_text :: "jsval \<Rightarrow> string" where
  "atom_text (JStr s) = quoted s"
| "atom_text (JBool b) = (if b then ''true'' else ''false'')"
| "atom_text v = ''null''"

text \<open>A member whose value is \<^verbatim>\<open>undefined\<close> is left out, as \<^verbatim>\<open>JSON.stringify\<close> does.\<close>

definition stringify_reference :: "jsval \<Rightarrow> string" where
  "stringify_reference v =
     (case v of
        JObj kvs \<Rightarrow>
          ''{'' @ join_with '','' (map (\<lambda>kv. quoted (fst kv) @ '':'' @ atom_text (snd kv))
                                    (filter (\<lambda>kv. snd kv \<noteq> JUndefined) kvs)) @ ''}''
      | _ \<Rightarrow> atom_text v)"

definition reference_platform ::
  "string option \<Rightarrow> string option \<Rightarrow> User option outcome
     \<Rightarrow> (SessionRecord \<Rightarrow> string option outcome) \<Rightarrow> platform" where
  "reference_platform url key getUser ins =
     \<lparr> JSON_parse = parse_reference, JSON_stringify = stringify_reference,
       VITE_SUPABASE_URL = url, VITE_SUPABASE_ANON_KEY = key,
       auth_getUser = getUser, sessions_insert = ins \<rparr>"

text \<open>
  Behaviours of the insert call: accepted, refused by the store, failing in transport,
  never settling.
\<close>

definition insert_ok :: "SessionRecord \<Rightarrow> string option outcome" where
  "insert_ok p = Returns None"

definition insert_refused :: "SessionRecord \<Rightarrow> string option outcome" where
  "insert_refused p = Returns (Some ''row-level security'')"

definition insert_offline :: "SessionRecord \<Rightarrow> string option outcome" where
  "insert_offline p = Throws ''Failed to fetch''"

definition insert_hangs :: "SessionRecord \<Rightarrow> string option outcome" where
  "insert_hangs p = Hangs"

text \<open>No Supabase variables set: the application runs on the local store alone.\<close>

definition local_only :: platform where
  "local_only = reference_platform None None Hangs insert_hangs"

text \<open>Both variables set, with a given behaviour of the two SDK calls.\<close>

definition cloud :: "User option outcome \<Rightarrow> (SessionRecord \<Rightarrow> string option outcome) \<Rightarrow> platform" where
  "cloud getUser ins =
     reference_platform (Some ''https://project.supabase.co'') (Some ''anon-key'') getUser ins"

definition student :: User where
  "student = \<lparr> uid = ''user-1'', email = ''student@example.org'' \<rparr>"

definition signed_out :: platform where
  "signed_out = cloud (Returns None) insert_ok"

definition signed_in :: platform where
  "signed_in = cloud (Returns (Some student)) insert_ok"

definition sample_record :: SessionRecord where
  "sample_record =
     \<lparr> id_field = None, user_id = None, energy_level = JStr ''high'', activity = JStr ''study'',
       duration_minutes = Some 25, feedback = Some ''good'', created_at = None \<rparr>"

definition sample_time :: string where
  "sample_time = ''2026-11-03T09:00:00.000Z''"


text \<open>Both variables set, but the SDK never answers, or the network is down.\<close>

definition unresponsive :: platform where
  "unresponsive = cloud Hangs insert_hangs"

definition offline :: platform where
  "offline = cloud (Throws ''Failed to fetch'') insert_offline"


section \<open>Concrete runs\<close>

text \<open>A first visit: nothing stored, no Supabase variables.\<close>

definition fresh_instance :: app where
  "fresh_instance = mount local_only sample_time Map.empty"

text \<open>High energy, study chosen, the default 25 minutes not yet started.\<close>

definition study_chosen :: app where
  "study_chosen =
     run_events local_only sample_time
       [SelectEnergy (JStr ''high''), SelectActivity (JStr ''study'')] fresh_instance"


text \<open>A five-minute study timer, started and counting.\<close>

definition counting :: app where
  "counting =
     run_events local_only sample_time
       [SelectEnergy (JStr ''high''), SelectActivity (JStr ''study''), SetTimerDuration 5,
        StartTimer, PlayPause] fresh_instance"

text \<open>A study session configured for 45 minutes with the Pomodoro box ticked.\<close>

definition configured_session :: app where
  "configured_session =
     run_events local_only sample_time
       [SelectEnergy (JStr ''high''), SelectActivity (JStr ''study''), SetTimerDuration 45,
        SetPomodoroEnabled True] fresh_instance"

text \<open>
  Signed in, on a platform whose SDK never answers: a five-minute study timer counting,
  and then run to its end with feedback requested.
\<close>

definition signed_in_counting :: app where
  "signed_in_counting =
     run_events unresponsive sample_time
       [AuthChange True, SelectEnergy (JStr ''high''), SelectActivity (JStr ''study''),
        SetTimerDuration 5, StartTimer, PlayPause] (mount unresponsive sample_time Map.empty)"

definition awaiting_feedback :: app where
  "awaiting_feedback =
     step unresponsive sample_time RequestFeedback
       (ticks unresponsive sample_time 300 signed_in_counting)"


text \<open>The record launched from the feedback prompt of that session.\<close>

definition launched_record :: SessionRecord where
  "launched_record =
     \<lparr> id_field = None, user_id = None, energy_level = JStr ''high'', activity = JStr ''study'',
       duration_minutes = Some 5, feedback = Some ''good'', created_at = None \<rparr>"

text \<open>Stores left behind by something other than the save effect.\<close>

definition stored_null :: "string \<rightharpoonup> string" where
  "stored_null = [STORAGE_KEY \<mapsto> ''null'']"

definition stored_foreign :: "string \<rightharpoonup> string" where
  "stored_foreign = [STORAGE_KEY \<mapsto> ''{\"energyLevel\":\"banana\",\"timestamp\":true}'']"

definition stored_object :: "string \<rightharpoonup> string" where
  "stored_object = [STORAGE_KEY \<mapsto> ''{\"energyLevel\":{}}'']"


section \<open>Invariants of the running instance\<close>

lemmas handler_defs = handleEnergySelect_def handleActivitySelect_def handleReset_def
  handleStartTimer_def handlePlayPause_def handleResetTimer_def handleCompleteFeedback_def
  interval_callback_def

lemmas effect_defs = run_effects_def save_effect_def timer_effect_def timer_cleanup_def

lemmas run_defs = ret_def await_def console_warn_def bind_run_def try_catch_def

lemmas platform_defs = cloud_def reference_platform_def signed_out_def signed_in_def
  local_only_def isSupabaseConfigured_def supabaseUrl_def supabaseAnonKey_def or_empty_def
  insert_ok_def insert_refused_def insert_offline_def insert_hangs_def student_def

lemma timer_invariant_mount: "timer_invariant (mount P now store)"
  by (auto simp: mount_def initial_def timer_invariant_def effect_defs render_throws_def
      screen_def Let_def split: option.splits if_splits)

lemma timer_invariant_step:
  assumes "timer_invariant s" "offered s ev"
  shows "timer_invariant (step P now ev s)"
proof (cases ev)
  case (SelectEnergy level)
  then show ?thesis using assms
    by (auto simp: step_def timer_invariant_def screen_def handleEnergySelect_def effect_defs
        Let_def split: if_splits)
next
  case (SelectActivity act)
  then show ?thesis using assms
    by (auto simp: step_def timer_invariant_def screen_def handleActivitySelect_def
        effect_defs Let_def split: if_splits)
next
  case Reset
  then show ?thesis using assms
    by (auto simp: step_def timer_invariant_def screen_def handleReset_def effect_defs
        Let_def split: if_splits)
next
  case (SetTimerDuration d)
  then show ?thesis using assms
    by (auto simp: step_def timer_invariant_def screen_def effect_defs Let_def
        split: if_splits)
next
  case (SetPomodoroEnabled b)
  then show ?thesis using assms
    by (auto simp: step_def timer_invariant_def screen_def effect_defs Let_def
        split: if_splits)
next
  case StartTimer
  then show ?thesis using assms
    by (auto simp: step_def timer_invariant_def screen_def handleStartTimer_def effect_defs
        Let_def split: if_splits)
next
  case PlayPause
  then show ?thesis using assms
    by (auto simp: step_def timer_invariant_def screen_def handlePlayPause_def effect_defs
        Let_def split: if_splits)
next
  case ResetTimer
  then show ?thesis using assms
    by (auto simp: step_def timer_invariant_def screen_def handleResetTimer_def effect_defs
        Let_def split: if_splits)
next
  case RequestFeedback
  then show ?thesis using assms
    by (auto simp: step_def timer_invariant_def screen_def effect_defs Let_def
        split: if_splits)
next
  case (CompleteFeedback fb)
  then show ?thesis using assms
    by (auto simp: step_def timer_invariant_def screen_def handleCompleteFeedback_def
        handleReset_def effect_defs Let_def split: if_splits)
next
  case Tick
  then show ?thesis using assms
    by (auto simp: step_def timer_invariant_def screen_def interval_callback_def effect_defs
        Let_def split: if_splits)
next
  case (AuthChange b)
  then show ?thesis using assms
    by (auto simp: step_def timer_invariant_def screen_def effect_defs Let_def
        split: if_splits)
qed

lemma reachable_timer_invariant: "reachable P s \<Longrightarrow> timer_invariant s"
  by (induction rule: reachable.induct) (auto intro: timer_invariant_mount timer_invariant_step)

lemma reachable_run_events:
  "reachable P s \<Longrightarrow> offered_run P now evs s \<Longrightarrow> reachable P (run_events P now evs s)"
  by (induction evs arbitrary: s) (auto intro: reachable_step)


lemma step_Tick_idle: "\<not> timerRef s \<Longrightarrow> step P now Tick s = s"
  by (simp add: step_def run_effects_def)

lemma step_Tick_counting:
  "timerRef s \<Longrightarrow> isTimerRunning s \<Longrightarrow> 1 < timeRemaining s
   \<Longrightarrow> step P now Tick s = s\<lparr>timeRemaining := timeRemaining s - 1\<rparr>"
  by (simp add: step_def run_effects_def interval_callback_def)

lemma step_Tick_last:
  "timerRef s \<Longrightarrow> isTimerRunning s \<Longrightarrow> timeRemaining s \<le> 1
   \<Longrightarrow> step P now Tick s
       = s\<lparr>isTimerRunning := False, sessionComplete := True, timeRemaining := 0, timerRef := False\<rparr>"
  by (simp add: step_def effect_defs interval_callback_def)

lemma ticks_idle: "\<not> timerRef s \<Longrightarrow> ticks P now n s = s"
  by (induction n) (simp_all add: step_Tick_idle)

lemma ticks_countdown:
  assumes "timerRef s" "isTimerRunning s" "0 < timeRemaining s"
  shows "ticks P now n s =
     (if int n < timeRemaining s then s\<lparr>timeRemaining := timeRemaining s - int n\<rparr>
      else s\<lparr>isTimerRunning := False, sessionComplete := True, timeRemaining := 0,
             timerRef := False\<rparr>)"
  using assms
proof (induction n arbitrary: s)
  case 0
  then show ?case by simp
next
  case (Suc n)
  show ?case
  proof (cases "timeRemaining s \<le> 1")
    case True
    with Suc.prems have "step P now Tick s
        = s\<lparr>isTimerRunning := False, sessionComplete := True, timeRemaining := 0, timerRef := False\<rparr>"
      by (simp add: step_Tick_last)
    with True show ?thesis by (simp add: ticks_idle)
  next
    case False
    with Suc.prems have st: "step P now Tick s = s\<lparr>timeRemaining := timeRemaining s - 1\<rparr>"
      by (simp add: step_Tick_counting)
    have "ticks P now n (s\<lparr>timeRemaining := timeRemaining s - 1\<rparr>) =
       (if int n < timeRemaining s - 1 then s\<lparr>timeRemaining := timeRemaining s - 1 - int n\<rparr>
        else s\<lparr>isTimerRunning := False, sessionComplete := True, timeRemaining := 0,
               timerRef := False\<rparr>)"
      using Suc.IH [of "s\<lparr>timeRemaining := timeRemaining s - 1\<rparr>"] Suc.prems False
      by simp
    with st show ?thesis by (auto simp: algebra_simps)
  qed
qed

lemma reachable_fresh_instance: "reachable local_only fresh_instance"
  unfolding fresh_instance_def by (rule reachable_mount)

lemma reachable_counting: "reachable local_only counting"
  unfolding counting_def
  by (rule reachable_run_events [OF reachable_fresh_instance]) code_simp

lemma reachable_study_chosen: "reachable local_only study_chosen"
  unfolding study_chosen_def
  by (rule reachable_run_events [OF reachable_fresh_instance]) code_simp

lemma awaiting_feedback_state:
  "awaiting_feedback
     = signed_in_counting\<lparr>isTimerRunning := False, sessionComplete := True, timeRemaining := 0,
         timerRef := False, showFeedback := True\<rparr>"
proof -
  have c: "timerRef signed_in_counting" "isTimerRunning signed_in_counting"
    "timeRemaining signed_in_counting = 300"
    by code_simp+
  then have "ticks unresponsive sample_time 300 signed_in_counting
      = signed_in_counting\<lparr>isTimerRunning := False, sessionComplete := True, timeRemaining := 0,
          timerRef := False\<rparr>"
    by (simp add: ticks_countdown)
  then show ?thesis
    by (simp add: awaiting_feedback_def step_def run_effects_def)
qed

lemma awaiting_feedback_screen: "screen awaiting_feedback = FeedbackPrompt"
proof -
  have "truthy (energyLevel signed_in_counting)" "truthy (currentActivity signed_in_counting)"
    by code_simp+
  then show ?thesis by (simp add: awaiting_feedback_state screen_def)
qed

lemma awaiting_feedback_mounted: "\<not> unmounted awaiting_feedback"
proof -
  have "\<not> unmounted signed_in_counting" by code_simp
  then show ?thesis by (simp add: awaiting_feedback_state)
qed

lemma awaiting_feedback_signed_in: "isAuthenticated awaiting_feedback"
proof -
  have "isAuthenticated signed_in_counting" by code_simp
  then show ?thesis by (simp add: awaiting_feedback_state)
qed




lemma awaiting_feedback_fields:
  "energyLevel awaiting_feedback = JStr ''high''"
  "currentActivity awaiting_feedback = JStr ''study''"
  "timerDuration awaiting_feedback = 5"
proof -
  have "energyLevel signed_in_counting = JStr ''high''"
    "currentActivity signed_in_counting = JStr ''study''"
    "timerDuration signed_in_counting = 5"
    by code_simp+
  then show "energyLevel awaiting_feedback = JStr ''high''"
    "currentActivity awaiting_feedback = JStr ''study''"
    "timerDuration awaiting_feedback = 5"
    by (simp_all add: awaiting_feedback_state)
qed

text \<open>A stored object as energy level cannot be rendered: the component is removed, the store untouched.\<close>

lemma load_stored_object: "load_session local_only stored_object = Some (JObj [], JUndefined)"
  by code_simp

lemma mount_stored_object:
  "unmounted (mount local_only sample_time stored_object)
   \<and> localStorage (mount local_only sample_time stored_object) = stored_object
   \<and> \<not> offered (mount local_only sample_time stored_object) Reset"
  by (simp add: mount_def load_stored_object render_throws_def screen_def initial_def
      effect_defs Let_def)


section \<open>Properties of the Session/Timer State Machine\<close>

text \<open>
  Claim C1.  From the feedback prompt, submitting any feedback choice, or skipping, takes
  the state machine to Idle: energy level and activity are null, every timer and
  feedback flag is clear.  The next state is the same on every platform and at every
  time, so it does not depend on what the sync call does, be it failure or never
  settling: the call is launched, not awaited.  When the instance is signed in exactly
  one call is launched, carrying the energy level, the activity, the timer duration in
  minutes and the feedback; when it is not, none is.  The launched call is
  \<^verbatim>\<open>syncSession\<close> on that record with its rejection handler: the last conjunct says
  what it does on every platform, for every record: nothing when the endpoint is not
  configured, otherwise the identity check and, for a signed-in user, one insert of the
  record stamped with the user id and the time; it stays pending when an SDK call never
  settles, and otherwise ends fulfilled, an error being logged as a warning.
\<close>

theorem submitFeedback_returns_to_Idle:
  assumes "screen s = FeedbackPrompt"
  shows "screen (step P now (CompleteFeedback fb) s) = Idle
    \<and> step P now (CompleteFeedback fb) s = step P' now' (CompleteFeedback fb) s
    \<and> energyLevel (step P now (CompleteFeedback fb) s) = JNull
    \<and> currentActivity (step P now (CompleteFeedback fb) s) = JNull
    \<and> \<not> showFeedback (step P now (CompleteFeedback fb) s)
    \<and> \<not> sessionComplete (step P now (CompleteFeedback fb) s)
    \<and> \<not> showTimer (step P now (CompleteFeedback fb) s)
    \<and> \<not> isTimerRunning (step P now (CompleteFeedback fb) s)
    \<and> timeRemaining (step P now (CompleteFeedback fb) s) = 0
    \<and> fst (handleCompleteFeedback P now fb s) = fst (handleCompleteFeedback P' now' fb s)
    \<and> snd (handleCompleteFeedback P now fb s)
        = (if isAuthenticated s
           then [(\<lparr> id_field = None, user_id = None, energy_level = energyLevel s,
                     activity = currentActivity s, duration_minutes = Some (timerDuration s),
                     feedback = fb, created_at = None \<rparr>,
                   background_sync P now
                     \<lparr> id_field = None, user_id = None, energy_level = energyLevel s,
                       activity = currentActivity s, duration_minutes = Some (timerDuration s),
                       feedback = fb, created_at = None \<rparr>)]
           else [])
    \<and> background_sync P now r
        = (if \<not> isSupabaseConfigured P then ([], Fulfilled ())
           else case auth_getUser P of
                  Hangs \<Rightarrow> ([AuthGetUser], Pending)
                | Throws e \<Rightarrow>
                    ([AuthGetUser, Warn ''Cloud sync error, continuing locally:'' e],
                     Fulfilled ())
                | Returns None \<Rightarrow> ([AuthGetUser], Fulfilled ())
                | Returns (Some u) \<Rightarrow>
                    (case sessions_insert P (insert_payload r u now) of
                       Hangs \<Rightarrow>
                         ([AuthGetUser, Insert ''sessions'' (insert_payload r u now)], Pending)
                     | Throws e \<Rightarrow>
                         ([AuthGetUser, Insert ''sessions'' (insert_payload r u now),
                           Warn ''Cloud sync error, continuing locally:'' e], Fulfilled ())
                     | Returns (Some message) \<Rightarrow>
                         ([AuthGetUser, Insert ''sessions'' (insert_payload r u now),
                           Warn ''Cloud sync failed, continuing locally:'' message],
                          Fulfilled ())
                     | Returns None \<Rightarrow>
                         ([AuthGetUser, Insert ''sessions'' (insert_payload r u now)],
                          Fulfilled ())))"
proof -
  from assms have scr: "truthy (energyLevel s)" "truthy (currentActivity s)" "showFeedback s"
    by (auto simp: screen_def split: if_splits)
  have next_state: "step Q t (CompleteFeedback fb) s
      = s\<lparr>energyLevel := JNull, currentActivity := JNull, showReflection := False,
           showTimer := False, isTimerRunning := False, timeRemaining := 0,
           sessionComplete := False, showFeedback := False, timerRef := False,
           localStorage := (localStorage s)(STORAGE_KEY := None)\<rparr>" for Q t
    using scr
    by (simp add: step_def handleCompleteFeedback_def handleReset_def effect_defs Let_def)
  have launched: "snd (handleCompleteFeedback P now fb s)
        = (if isAuthenticated s
           then [(\<lparr> id_field = None, user_id = None, energy_level = energyLevel s,
                     activity = currentActivity s, duration_minutes = Some (timerDuration s),
                     feedback = fb, created_at = None \<rparr>,
                   background_sync P now
                     \<lparr> id_field = None, user_id = None, energy_level = energyLevel s,
                       activity = currentActivity s, duration_minutes = Some (timerDuration s),
                       feedback = fb, created_at = None \<rparr>)]
           else [])"
    using scr by (simp add: handleCompleteFeedback_def Let_def)
  have same: "fst (handleCompleteFeedback P now fb s) = fst (handleCompleteFeedback P' now' fb s)"
    by (simp add: handleCompleteFeedback_def Let_def)
  have idle: "screen (step P now (CompleteFeedback fb) s) = Idle"
    by (simp add: next_state screen_def)
  have run: "background_sync P now r
        = (if \<not> isSupabaseConfigured P then ([], Fulfilled ())
           else case auth_getUser P of
                  Hangs \<Rightarrow> ([AuthGetUser], Pending)
                | Throws e \<Rightarrow>
                    ([AuthGetUser, Warn ''Cloud sync error, continuing locally:'' e],
                     Fulfilled ())
                | Returns None \<Rightarrow> ([AuthGetUser], Fulfilled ())
                | Returns (Some u) \<Rightarrow>
                    (case sessions_insert P (insert_payload r u now) of
                       Hangs \<Rightarrow>
                         ([AuthGetUser, Insert ''sessions'' (insert_payload r u now)], Pending)
                     | Throws e \<Rightarrow>
                         ([AuthGetUser, Insert ''sessions'' (insert_payload r u now),
                           Warn ''Cloud sync error, continuing locally:'' e], Fulfilled ())
                     | Returns (Some message) \<Rightarrow>
                         ([AuthGetUser, Insert ''sessions'' (insert_payload r u now),
                           Warn ''Cloud sync failed, continuing locally:'' message],
                          Fulfilled ())
                     | Returns None \<Rightarrow>
                         ([AuthGetUser, Insert ''sessions'' (insert_payload r u now)],
                          Fulfilled ())))"
    by (simp add: background_sync_def syncSession_def syncSession_try_def run_defs
        split: outcome.splits option.splits)
  show ?thesis
    using launched same idle run by (simp add: next_state)
qed

text \<open>
  A five-minute session run to its end, signed in.  On a platform whose SDK never answers
  the launched call on the record of that session stays pending after the identity
  check, and the state machine is back in Idle all the same, as it is when the network
  is down, where the call ends with a warning; on a working platform the call inserts
  the record.
\<close>

theorem submitFeedback_returns_to_Idle_witness:
  "screen awaiting_feedback = FeedbackPrompt
   \<and> isAuthenticated awaiting_feedback
   \<and> offered awaiting_feedback (CompleteFeedback (Some ''good''))
   \<and> screen (step unresponsive sample_time (CompleteFeedback (Some ''good''))
        awaiting_feedback) = Idle
   \<and> step unresponsive sample_time (CompleteFeedback (Some ''good'')) awaiting_feedback
       = step offline sample_time (CompleteFeedback (Some ''good'')) awaiting_feedback
   \<and> snd (handleCompleteFeedback unresponsive sample_time (Some ''good'') awaiting_feedback)
       = [(launched_record, ([AuthGetUser], Pending))]
   \<and> snd (handleCompleteFeedback offline sample_time (Some ''good'') awaiting_feedback)
       = [(launched_record,
           ([AuthGetUser, Warn ''Cloud sync error, continuing locally:'' ''Failed to fetch''],
            Fulfilled ()))]
   \<and> snd (handleCompleteFeedback signed_in sample_time (Some ''good'') awaiting_feedback)
       = [(launched_record,
           ([AuthGetUser,
             Insert ''sessions''
               (launched_record\<lparr>user_id := Some ''user-1'', created_at := Some sample_time\<rparr>)],
            Fulfilled ()))]"
proof -
  note T = submitFeedback_returns_to_Idle [OF awaiting_feedback_screen]
  have rec: "\<lparr> id_field = None, user_id = None, energy_level = energyLevel awaiting_feedback,
         activity = currentActivity awaiting_feedback,
         duration_minutes = Some (timerDuration awaiting_feedback),
         feedback = Some ''good'', created_at = None \<rparr> = launched_record"
    by (simp add: awaiting_feedback_fields launched_record_def)
  have hanging: "isSupabaseConfigured unresponsive" "auth_getUser unresponsive = Hangs"
    by (simp_all add: unresponsive_def platform_defs)
  have failing: "isSupabaseConfigured offline" "auth_getUser offline = Throws ''Failed to fetch''"
    by (simp_all add: offline_def platform_defs)
  have working: "isSupabaseConfigured signed_in" "auth_getUser signed_in = Returns (Some student)"
    "sessions_insert signed_in (insert_payload launched_record student sample_time) = Returns None"
    "insert_payload launched_record student sample_time
       = launched_record\<lparr>user_id := Some ''user-1'', created_at := Some sample_time\<rparr>"
    by (simp_all add: platform_defs insert_payload_def)
  note U = T [where P = unresponsive and now = sample_time and fb = "Some ''good''"
      and r = launched_record and P' = offline and now' = sample_time]
  note V = T [where P = offline and now = sample_time and fb = "Some ''good''"
      and r = launched_record and P' = offline and now' = sample_time]
  note W = T [where P = signed_in and now = sample_time and fb = "Some ''good''"
      and r = launched_record and P' = offline and now' = sample_time]
  note a = U [THEN conjunct1]
  note b = U [THEN conjunct2, THEN conjunct1]
  from U [THEN conjunct2, THEN conjunct2, THEN conjunct2, THEN conjunct2, THEN conjunct2, THEN conjunct2, THEN conjunct2, THEN conjunct2, THEN conjunct2, THEN conjunct2, THEN conjunct1] U [THEN conjunct2, THEN conjunct2, THEN conjunct2, THEN conjunct2, THEN conjunct2, THEN conjunct2, THEN conjunct2, THEN conjunct2, THEN conjunct2, THEN conjunct2, THEN conjunct2]
    awaiting_feedback_signed_in hanging
  have c: "snd (handleCompleteFeedback unresponsive sample_time (Some ''good'') awaiting_feedback)
       = [(launched_record, ([AuthGetUser], Pending))]"
    by (simp add: rec)
  from V [THEN conjunct2, THEN conjunct2, THEN conjunct2, THEN conjunct2, THEN conjunct2, THEN conjunct2, THEN conjunct2, THEN conjunct2, THEN conjunct2, THEN conjunct2, THEN conjunct1] V [THEN conjunct2, THEN conjunct2, THEN conjunct2, THEN conjunct2, THEN conjunct2, THEN conjunct2, THEN conjunct2, THEN conjunct2, THEN conjunct2, THEN conjunct2, THEN conjunct2]
    awaiting_feedback_signed_in failing
  have d: "snd (handleCompleteFeedback offline sample_time (Some ''good'') awaiting_feedback)
       = [(launched_record,
           ([AuthGetUser, Warn ''Cloud sync error, continuing locally:'' ''Failed to fetch''],
            Fulfilled ()))]"
    by (simp add: rec)
  from W [THEN conjunct2, THEN conjunct2, THEN conjunct2, THEN conjunct2, THEN conjunct2, THEN conjunct2, THEN conjunct2, THEN conjunct2, THEN conjunct2, THEN conjunct2, THEN conjunct1] W [THEN conjunct2, THEN conjunct2, THEN conjunct2, THEN conjunct2, THEN conjunct2, THEN conjunct2, THEN conjunct2, THEN conjunct2, THEN conjunct2, THEN conjunct2, THEN conjunct2]
    awaiting_feedback_signed_in working
  have e: "snd (handleCompleteFeedback signed_in sample_time (Some ''good'') awaiting_feedback)
       = [(launched_record,
           ([AuthGetUser,
             Insert ''sessions''
               (launched_record\<lparr>user_id := Some ''user-1'', created_at := Some sample_time\<rparr>)],
            Fulfilled ()))]"
    by (simp add: rec)
  from awaiting_feedback_screen awaiting_feedback_mounted
  have f: "offered awaiting_feedback (CompleteFeedback (Some ''good''))"
    by simp
  from awaiting_feedback_screen awaiting_feedback_signed_in f a b c d e show ?thesis
    by (intro conjI)
qed

text \<open>
  Claim C2.  In every reachable state the remaining seconds lie between 0 and the
  configured duration times 60.  While the timer is running with seconds remaining, a
  tick takes exactly one second off.  Counting on from a running state with \<open>r\<close>
  seconds remaining, the first \<open>r - 1\<close> ticks leave the timer running and not complete;
  the tick that reaches 0 stops it and marks the session complete, and from then on a
  tick changes nothing.
\<close>

theorem timer_tick_countdown:
  assumes "reachable P s"
  shows "0 \<le> timeRemaining s \<and> timeRemaining s \<le> timerDuration s * 60
    \<and> (isTimerRunning s \<and> 0 < timeRemaining s
         \<longrightarrow> timeRemaining (step P now Tick s) = timeRemaining s - 1)
    \<and> (isTimerRunning s \<longrightarrow>
         (\<forall>n. if int n < timeRemaining s
              then timeRemaining (ticks P now n s) = timeRemaining s - int n
                   \<and> isTimerRunning (ticks P now n s) \<and> \<not> sessionComplete (ticks P now n s)
              else timeRemaining (ticks P now n s) = 0
                   \<and> \<not> isTimerRunning (ticks P now n s) \<and> sessionComplete (ticks P now n s)
                   \<and> step P now Tick (ticks P now n s) = ticks P now n s))"
proof -
  from assms have inv: "timer_invariant s" by (rule reachable_timer_invariant)
  then have bounds: "0 \<le> timeRemaining s \<and> timeRemaining s \<le> timerDuration s * 60"
    by (simp add: timer_invariant_def)
  have running: "timerRef s \<and> 0 < timeRemaining s \<and> \<not> sessionComplete s" if "isTimerRunning s"
    using inv that by (auto simp: timer_invariant_def)
  have one: "timeRemaining (step P now Tick s) = timeRemaining s - 1" if "isTimerRunning s"
    using ticks_countdown [of s P now 1] running [OF that] that
    by (auto split: if_splits)
  have many: "if int n < timeRemaining s
              then timeRemaining (ticks P now n s) = timeRemaining s - int n
                   \<and> isTimerRunning (ticks P now n s) \<and> \<not> sessionComplete (ticks P now n s)
              else timeRemaining (ticks P now n s) = 0
                   \<and> \<not> isTimerRunning (ticks P now n s) \<and> sessionComplete (ticks P now n s)
                   \<and> step P now Tick (ticks P now n s) = ticks P now n s"
    if "isTimerRunning s" for n
    using ticks_countdown [of s P now n] running [OF that] that
    by (simp add: step_Tick_idle)
  show ?thesis using bounds one many by blast
qed

text \<open>A five-minute timer: 300 seconds, 299 after one tick, complete after 300 ticks.\<close>

theorem timer_tick_countdown_witness:
  "reachable local_only counting \<and> isTimerRunning counting \<and> timeRemaining counting = 300
   \<and> timerDuration counting = 5
   \<and> timeRemaining (step local_only sample_time Tick counting) = 299
   \<and> timeRemaining (ticks local_only sample_time 299 counting) = 1
   \<and> isTimerRunning (ticks local_only sample_time 299 counting)
   \<and> \<not> sessionComplete (ticks local_only sample_time 299 counting)
   \<and> timeRemaining (ticks local_only sample_time 300 counting) = 0
   \<and> \<not> isTimerRunning (ticks local_only sample_time 300 counting)
   \<and> sessionComplete (ticks local_only sample_time 300 counting)
   \<and> step local_only sample_time Tick (ticks local_only sample_time 300 counting)
       = ticks local_only sample_time 300 counting"
proof -
  have e: "isTimerRunning counting" "timeRemaining counting = 300" "timerDuration counting = 5"
    by code_simp+
  note T = timer_tick_countdown [OF reachable_counting, of sample_time]
  from T e have one: "timeRemaining (step local_only sample_time Tick counting) = 299"
    by simp
  from T e have run: "if int n < 300
              then timeRemaining (ticks local_only sample_time n counting) = 300 - int n
                   \<and> isTimerRunning (ticks local_only sample_time n counting)
                   \<and> \<not> sessionComplete (ticks local_only sample_time n counting)
              else timeRemaining (ticks local_only sample_time n counting) = 0
                   \<and> \<not> isTimerRunning (ticks local_only sample_time n counting)
                   \<and> sessionComplete (ticks local_only sample_time n counting)
                   \<and> step local_only sample_time Tick (ticks local_only sample_time n counting)
                       = ticks local_only sample_time n counting" for n
    by simp
  from run [of 299] run [of 300] one e reachable_counting show ?thesis
    by simp
qed





text \<open>
  Claim C5, as amended.  From any state, reset clears the energy level, the activity, the
  reflection panel and the timer sub-state (timer shown, running flag, remaining
  seconds, completion and feedback flags, registered interval), removes the record under
  the storage key and shows Idle; a later load finds nothing and a fresh instance over
  that store starts from the initial state.  The timer configuration (duration and
  Pomodoro flag) and the sign-in flag are left as they were.
\<close>

theorem reset_clears_session:
  "energyLevel (step P now Reset s) = JNull
   \<and> currentActivity (step P now Reset s) = JNull
   \<and> \<not> showReflection (step P now Reset s)
   \<and> \<not> showTimer (step P now Reset s)
   \<and> \<not> isTimerRunning (step P now Reset s)
   \<and> timeRemaining (step P now Reset s) = 0
   \<and> \<not> sessionComplete (step P now Reset s)
   \<and> \<not> showFeedback (step P now Reset s)
   \<and> \<not> timerRef (step P now Reset s)
   \<and> screen (step P now Reset s) = Idle
   \<and> localStorage (step P now Reset s) = (localStorage s)(STORAGE_KEY := None)
   \<and> load_session P' (localStorage (step P now Reset s)) = None
   \<and> mount P' now' (localStorage (step P now Reset s)) = initial (localStorage (step P now Reset s))
   \<and> timerDuration (step P now Reset s) = timerDuration s
   \<and> pomodoroEnabled (step P now Reset s) = pomodoroEnabled s
   \<and> isAuthenticated (step P now Reset s) = isAuthenticated s"
  by (simp add: step_def handleReset_def effect_defs screen_def Let_def mount_def
      load_session_def initial_def)

text \<open>
  Claim C5 as stated has reset clear the timer configuration too.  After a session was
  configured for 45 minutes with the Pomodoro box ticked, reset leaves the duration at
  45, not the initial 25, and the box ticked.
\<close>

theorem reset_keeps_configuration_counterexample:
  "offered_run local_only sample_time
       [SelectEnergy (JStr ''high''), SelectActivity (JStr ''study''), SetTimerDuration 45,
        SetPomodoroEnabled True, Reset] fresh_instance
   \<and> timerDuration fresh_instance = 25 \<and> \<not> pomodoroEnabled fresh_instance
   \<and> timerDuration (step local_only sample_time Reset configured_session) = 45
   \<and> pomodoroEnabled (step local_only sample_time Reset configured_session)"
  by code_simp

text \<open>
  Claim C6.  From a reachable state that shows the chosen activity, study or rest,
  starting the timer is offered; it sets the remaining seconds to the configured
  duration times 60, clears the completion flag and shows the timer, which is not
  running: a tick changes nothing until play is pressed.  After play, one tick takes one
  second off.  With the duration at 25 that is 1500 seconds, then 1499.
\<close>

theorem startTimer_sets_remaining:
  assumes "reachable P s" and "screen s = ActivityChosen"
    and "currentActivity s \<in> {JStr ''study'', JStr ''rest''}"
  shows "offered s StartTimer
    \<and> timeRemaining (step P now StartTimer s) = timerDuration s * 60
    \<and> \<not> sessionComplete (step P now StartTimer s)
    \<and> screen (step P now StartTimer s) = TimerRunning
    \<and> \<not> isTimerRunning (step P now StartTimer s)
    \<and> step P now Tick (step P now StartTimer s) = step P now StartTimer s
    \<and> isTimerRunning (step P now PlayPause (step P now StartTimer s))
    \<and> timeRemaining (step P now Tick (step P now PlayPause (step P now StartTimer s)))
        = timerDuration s * 60 - 1
    \<and> (timerDuration s = 25 \<longrightarrow>
         timeRemaining (step P now StartTimer s) = 1500
         \<and> timeRemaining (step P now Tick (step P now PlayPause (step P now StartTimer s)))
             = 1499)"
proof -
  from assms(1) have inv: "timer_invariant s" by (rule reachable_timer_invariant)
  from assms(2) have scr: "truthy (energyLevel s)" "truthy (currentActivity s)" "\<not> showFeedback s"
    "\<not> showTimer s" "\<not> sessionComplete s"
    by (auto simp: screen_def split: if_splits)
  from inv scr have rest: "\<not> isTimerRunning s" "\<not> timerRef s" "5 \<le> timerDuration s"
    by (auto simp: timer_invariant_def)
  have start: "step P now StartTimer s
      = s\<lparr>showTimer := True, timeRemaining := timerDuration s * 60, sessionComplete := False\<rparr>"
    by (simp add: step_def handleStartTimer_def run_effects_def)
  have play: "step P now PlayPause (step P now StartTimer s)
      = s\<lparr>showTimer := True, timeRemaining := timerDuration s * 60, sessionComplete := False,
           isTimerRunning := True, timerRef := True\<rparr>"
    using rest unfolding start
    by (simp add: step_def handlePlayPause_def effect_defs)
  have tick: "timeRemaining (step P now Tick (step P now PlayPause (step P now StartTimer s)))
      = timerDuration s * 60 - 1"
    using rest unfolding play
    by (simp add: step_def interval_callback_def run_effects_def)
  have idle: "step P now Tick (step P now StartTimer s) = step P now StartTimer s"
    using rest unfolding start by (simp add: step_def run_effects_def)
  have off: "offered s StartTimer"
    using assms(2,3) inv scr by (auto simp: timer_invariant_def)
  have c1: "timeRemaining (step P now StartTimer s) = timerDuration s * 60"
    and c2: "\<not> sessionComplete (step P now StartTimer s)"
    and c3: "screen (step P now StartTimer s) = TimerRunning"
    and c4: "\<not> isTimerRunning (step P now StartTimer s)"
    using scr rest by (simp_all add: start screen_def)
  have c5: "isTimerRunning (step P now PlayPause (step P now StartTimer s))"
    by (simp add: play)
  from c1 tick have c6: "timerDuration s = 25 \<longrightarrow>
         timeRemaining (step P now StartTimer s) = 1500
         \<and> timeRemaining (step P now Tick (step P now PlayPause (step P now StartTimer s)))
             = 1499"
    by simp
  from off c1 c2 c3 c4 idle c5 tick c6 show ?thesis
    by (intro conjI)
qed

text \<open>Study chosen with the default duration of 25 minutes.\<close>

theorem startTimer_sets_remaining_witness:
  "reachable local_only study_chosen \<and> screen study_chosen = ActivityChosen
   \<and> currentActivity study_chosen = JStr ''study'' \<and> timerDuration study_chosen = 25
   \<and> timeRemaining (step local_only sample_time StartTimer study_chosen) = 1500
   \<and> \<not> isTimerRunning (step local_only sample_time StartTimer study_chosen)
   \<and> screen (step local_only sample_time StartTimer study_chosen) = TimerRunning
   \<and> timeRemaining (step local_only sample_time Tick (step local_only sample_time PlayPause
        (step local_only sample_time StartTimer study_chosen))) = 1499"
proof -
  have h: "screen study_chosen = ActivityChosen" "currentActivity study_chosen = JStr ''study''"
    "timerDuration study_chosen = 25"
    by code_simp+
  from h(2) have m: "currentActivity study_chosen \<in> {JStr ''study'', JStr ''rest''}"
    by simp
  note T = startTimer_sets_remaining [OF reachable_study_chosen h(1) m, of sample_time]
  from T h reachable_study_chosen show ?thesis by blast
qed

text \<open>
  Claim C7.  On a platform whose \<^verbatim>\<open>JSON.parse\<close> rejects the empty text and reads back
  what \<^verbatim>\<open>JSON.stringify\<close> wrote for the session object, selecting energy \<^verbatim>\<open>high\<close>
  and then activity \<^verbatim>\<open>study\<close>, from any state, leaves a record under the storage
  key from which a fresh instance restores energy level \<^verbatim>\<open>high\<close> and activity
  \<^verbatim>\<open>study\<close>.  The store after the two selections is the store before with the text
  under the storage key replaced by the latest session object: the last write wins and
  no other key is touched.  The same holds for each selection of an energy level or of
  an activity that the page offers.
\<close>

theorem persist_reload_round_trip:
  "(JSON_parse P [] = None
    \<and> JSON_parse P (JSON_stringify P (session_object (JStr ''high'') (JStr ''study'') t_activity))
      = Some (session_object (JStr ''high'') (JStr ''study'') t_activity)
    \<longrightarrow> energyLevel (mount P t_reload (localStorage
            (step P t_activity (SelectActivity (JStr ''study''))
              (step P t_energy (SelectEnergy (JStr ''high'')) s)))) = JStr ''high''
      \<and> currentActivity (mount P t_reload (localStorage
            (step P t_activity (SelectActivity (JStr ''study''))
              (step P t_energy (SelectEnergy (JStr ''high'')) s)))) = JStr ''study'')
   \<and> localStorage (step P t_activity (SelectActivity (JStr ''study''))
         (step P t_energy (SelectEnergy (JStr ''high'')) s))
       = (localStorage s)(STORAGE_KEY \<mapsto>
            JSON_stringify P (session_object (JStr ''high'') (JStr ''study'') t_activity))
   \<and> (offered s (SelectEnergy level) \<longrightarrow>
        localStorage (step P now (SelectEnergy level) s)
          = (localStorage s)(STORAGE_KEY \<mapsto> JSON_stringify P (session_object level JNull now)))
   \<and> (offered s (SelectActivity act) \<longrightarrow>
        localStorage (step P now (SelectActivity act) s)
          = (localStorage s)(STORAGE_KEY \<mapsto>
               JSON_stringify P (session_object (energyLevel s) act now)))"
proof -
  let ?s1 = "step P t_energy (SelectEnergy (JStr ''high'')) s"
  let ?s2 = "step P t_activity (SelectActivity (JStr ''study'')) ?s1"
  let ?text = "JSON_stringify P (session_object (JStr ''high'') (JStr ''study'') t_activity)"
  have s1: "energyLevel ?s1 = JStr ''high''" "currentActivity ?s1 = JNull"
    "localStorage ?s1 STORAGE_KEY = localStorage ?s1 STORAGE_KEY"
    by (simp_all add: step_def handleEnergySelect_def effect_defs Let_def)
  have store1: "(localStorage ?s1)(STORAGE_KEY \<mapsto> t) = (localStorage s)(STORAGE_KEY \<mapsto> t)" for t
    by (simp add: step_def handleEnergySelect_def effect_defs Let_def)
  have store2: "localStorage ?s2 = (localStorage ?s1)(STORAGE_KEY \<mapsto> ?text)"
    using s1(1,2)
    by (simp add: step_def [of P t_activity] handleActivitySelect_def effect_defs Let_def)
  have store: "localStorage ?s2 = (localStorage s)(STORAGE_KEY \<mapsto> ?text)"
    using store2 store1 by simp
  have reload: "energyLevel (mount P t_reload (localStorage ?s2)) = JStr ''high''
      \<and> currentActivity (mount P t_reload (localStorage ?s2)) = JStr ''study''"
    if "JSON_parse P [] = None"
      "JSON_parse P ?text = Some (session_object (JStr ''high'') (JStr ''study'') t_activity)"
  proof -
    from that have "?text \<noteq> []" by auto
    with that(2) have "load_session P (localStorage ?s2) = Some (JStr ''high'', JStr ''study'')"
      unfolding store by (simp add: load_session_def session_object_def)
    then show ?thesis
      by (simp add: mount_def effect_defs initial_def Let_def)
  qed
  have energy: "localStorage (step P now (SelectEnergy level) s)
          = (localStorage s)(STORAGE_KEY \<mapsto> JSON_stringify P (session_object level JNull now))"
    if "offered s (SelectEnergy level)"
    using that
    by (auto simp: step_def handleEnergySelect_def effect_defs screen_def Let_def split: if_splits)
  have activity: "localStorage (step P now (SelectActivity act) s)
          = (localStorage s)(STORAGE_KEY \<mapsto>
               JSON_stringify P (session_object (energyLevel s) act now))"
    if "offered s (SelectActivity act)"
    using that
    by (auto simp: step_def handleActivitySelect_def effect_defs screen_def Let_def split: if_splits)
  show ?thesis
    using store reload energy activity by blast
qed

text \<open>The round trip on the reference platform, from a fresh instance.\<close>

theorem persist_reload_round_trip_witness:
  "JSON_parse local_only [] = None
   \<and> JSON_parse local_only (JSON_stringify local_only
         (session_object (JStr ''high'') (JStr ''study'') sample_time))
       = Some (session_object (JStr ''high'') (JStr ''study'') sample_time)
   \<and> offered fresh_instance (SelectEnergy (JStr ''high''))
   \<and> offered (step local_only sample_time (SelectEnergy (JStr ''high'')) fresh_instance)
        (SelectActivity (JStr ''study''))
   \<and> energyLevel (mount local_only sample_time (localStorage
          (step local_only sample_time (SelectActivity (JStr ''study''))
            (step local_only sample_time (SelectEnergy (JStr ''high'')) fresh_instance))))
       = JStr ''high''
   \<and> currentActivity (mount local_only sample_time (localStorage
          (step local_only sample_time (SelectActivity (JStr ''study''))
            (step local_only sample_time (SelectEnergy (JStr ''high'')) fresh_instance))))
       = JStr ''study''
   \<and> localStorage (step local_only sample_time (SelectEnergy (JStr ''high'')) fresh_instance)
       = (localStorage fresh_instance)(STORAGE_KEY \<mapsto>
            JSON_stringify local_only (session_object (JStr ''high'') JNull sample_time))
   \<and> localStorage (step local_only sample_time (SelectActivity (JStr ''study''))
          (step local_only sample_time (SelectEnergy (JStr ''high'')) fresh_instance))
       = (localStorage (step local_only sample_time (SelectEnergy (JStr ''high'')) fresh_instance))
           (STORAGE_KEY \<mapsto> JSON_stringify local_only
              (session_object
                (energyLevel (step local_only sample_time (SelectEnergy (JStr ''high'')) fresh_instance))
                (JStr ''study'') sample_time))"
proof -
  let ?s1 = "step local_only sample_time (SelectEnergy (JStr ''high'')) fresh_instance"
  have contract: "JSON_parse local_only [] = None
   \<and> JSON_parse local_only (JSON_stringify local_only
         (session_object (JStr ''high'') (JStr ''study'') sample_time))
       = Some (session_object (JStr ''high'') (JStr ''study'') sample_time)"
    by code_simp
  have o1: "offered fresh_instance (SelectEnergy (JStr ''high''))"
    by code_simp
  have o2: "offered ?s1 (SelectActivity (JStr ''study''))"
    by code_simp
  note T1 = persist_reload_round_trip [where P = local_only and t_energy = sample_time
      and t_activity = sample_time and t_reload = sample_time and now = sample_time
      and s = fresh_instance and level = "JStr ''high''" and act = "JStr ''study''"]
  note T2 = persist_reload_round_trip [where P = local_only and t_energy = sample_time
      and t_activity = sample_time and t_reload = sample_time and now = sample_time
      and s = "?s1" and level = "JStr ''high''" and act = "JStr ''study''"]
  from contract o1 o2 T1 T2 show ?thesis by blast
qed

text \<open>
  Claim C10, as amended.  When the stored text is not empty and \<^verbatim>\<open>JSON.parse\<close> returns
  a value other than \<^verbatim>\<open>null\<close>, the load effect passes whatever the reads of
  \<^verbatim>\<open>energyLevel\<close> and \<^verbatim>\<open>currentActivity\<close> on that value give to the state setters,
  unchecked: a value outside the enumerations as it is, a missing field as
  \<^verbatim>\<open>undefined\<close>.  When \<^verbatim>\<open>JSON.parse\<close> returns \<^verbatim>\<open>null\<close> the read throws inside the
  \<^verbatim>\<open>try\<close> block, nothing is passed on, and the instance starts from the initial state.
\<close>

theorem load_injects_fields_verbatim:
  "store STORAGE_KEY = Some payload \<and> payload \<noteq> [] \<and> JSON_parse P payload = Some session
   \<longrightarrow> (session \<noteq> JNull \<and> session \<noteq> JUndefined
          \<longrightarrow> (\<exists>e a. load_session P store = Some (e, a)
                 \<and> get_field session ''energyLevel'' = Some e
                 \<and> get_field session ''currentActivity'' = Some a))
     \<and> (session = JNull \<longrightarrow> load_session P store = None \<and> mount P now store = initial store)"
proof (intro impI conjI)
  assume a: "store STORAGE_KEY = Some payload \<and> payload \<noteq> [] \<and> JSON_parse P payload = Some session"
  show "load_session P store = None" if "session = JNull"
    using a that by (simp add: load_session_def)
  show "mount P now store = initial store" if "session = JNull"
    using a that by (simp add: mount_def load_session_def effect_defs initial_def)
  assume b: "session \<noteq> JNull \<and> session \<noteq> JUndefined"
  then obtain e c where ec: "get_field session ''energyLevel'' = Some e"
    "get_field session ''currentActivity'' = Some c"
    by (cases session) auto
  with a have ld: "load_session P store = Some (e, c)"
    by (simp add: load_session_def)
  with ec show "\<exists>e a. load_session P store = Some (e, a)
                 \<and> get_field session ''energyLevel'' = Some e
                 \<and> get_field session ''currentActivity'' = Some a"
    by blast
qed

text \<open>
  Claim C10 as stated has every text that parses restore its missing fields as
  \<^verbatim>\<open>undefined\<close>.  The text \<^verbatim>\<open>null\<close> parses, and the energy level and activity stay
  at their initial \<^verbatim>\<open>null\<close>: the load effect sets nothing.
\<close>

theorem load_null_payload_counterexample:
  "stored_null STORAGE_KEY = Some ''null''
   \<and> JSON_parse local_only ''null'' = Some JNull
   \<and> energyLevel (mount local_only sample_time stored_null) = JNull
   \<and> currentActivity (mount local_only sample_time stored_null) = JNull
   \<and> load_session local_only stored_null = None"
  by code_simp

text \<open>
  A stored object with an energy level outside the enumeration and no activity, and
  the stored text \<^verbatim>\<open>null\<close>.
\<close>

theorem load_injects_fields_verbatim_witness:
  "stored_foreign STORAGE_KEY = Some ''{\"energyLevel\":\"banana\",\"timestamp\":true}''
   \<and> JSON_parse local_only ''{\"energyLevel\":\"banana\",\"timestamp\":true}''
       = Some (JObj [(''energyLevel'', JStr ''banana''), (''timestamp'', JBool True)])
   \<and> load_session local_only stored_foreign = Some (JStr ''banana'', JUndefined)
   \<and> load_session local_only stored_null = None
   \<and> mount local_only sample_time stored_null = initial stored_null"
proof -
  let ?payload = "''{\"energyLevel\":\"banana\",\"timestamp\":true}''"
  let ?session = "JObj [(''energyLevel'', JStr ''banana''), (''timestamp'', JBool True)]"
  have h: "stored_foreign STORAGE_KEY = Some ?payload \<and> ?payload \<noteq> []
      \<and> JSON_parse local_only ?payload = Some ?session"
    by code_simp
  have g: "?session \<noteq> JNull \<and> ?session \<noteq> JUndefined"
    by simp
  have f: "get_field ?session ''energyLevel'' = Some (JStr ''banana'')"
    "get_field ?session ''currentActivity'' = Some JUndefined"
    by simp_all
  have n: "stored_null STORAGE_KEY = Some ''null'' \<and> ''null'' \<noteq> []
      \<and> JSON_parse local_only ''null'' = Some JNull"
    by code_simp
  note T = load_injects_fields_verbatim [of stored_foreign ?payload local_only ?session sample_time]
  note N = load_injects_fields_verbatim [of stored_null "''null''" local_only JNull sample_time]
  from T h g obtain e a where ea: "load_session local_only stored_foreign = Some (e, a)"
    "get_field ?session ''energyLevel'' = Some e"
    "get_field ?session ''currentActivity'' = Some a"
    by blast
  from ea(2,3) f have "e = JStr ''banana''" "a = JUndefined" by simp_all
  with ea(1) have loaded: "load_session local_only stored_foreign = Some (JStr ''banana'', JUndefined)"
    by simp
  from N n have nul: "load_session local_only stored_null = None"
    "mount local_only sample_time stored_null = initial stored_null"
    by blast+
  from h loaded nul show ?thesis by blast
qed


section \<open>Properties of the Remote Sync Client\<close>



text \<open>
  Claim C9, as amended.  Every record that \<^verbatim>\<open>syncSession\<close> passes to the insert carries a
  \<^verbatim>\<open>created_at\<close> written by the client: the reading of the client's clock
  (\<^verbatim>\<open>new Date().toISOString()\<close>) taken when the payload is built, which replaces whatever
  \<^verbatim>\<open>created_at\<close> the caller's record had; the payload also carries the id of the user that
  the identity lookup returned.
\<close>

theorem insert_payload_created_at:
  "\<forall>table p. Insert table p \<in> set (fst (syncSession P now session)) \<longrightarrow>
      table = ''sessions'' \<and> created_at p = Some now
      \<and> (\<exists>u. auth_getUser P = Returns (Some u) \<and> user_id p = Some (uid u)
              \<and> p = insert_payload session u now)"
  by (auto simp: syncSession_def syncSession_try_def run_defs insert_payload_def
      split: outcome.splits option.splits completion.splits if_splits)

text \<open>
  Claim C9 as stated says that \<^verbatim>\<open>created_at\<close> is not supplied in the insert payload.  For a
  signed-in user the payload of the insert holds the client's own timestamp.
\<close>

theorem insert_payload_created_at_counterexample:
  "fst (syncSession signed_in sample_time sample_record)
     = [AuthGetUser, Insert ''sessions'' (sample_record\<lparr>user_id := Some ''user-1'', created_at := Some sample_time\<rparr>)]
   \<and> created_at (sample_record\<lparr>user_id := Some ''user-1'', created_at := Some sample_time\<rparr>) = Some sample_time"
  by (simp add: syncSession_def syncSession_try_def run_defs insert_payload_def platform_defs)

text \<open>An insert that is made, and the timestamp it carries.\<close>

theorem insert_payload_created_at_witness:
  "Insert ''sessions'' (insert_payload sample_record student sample_time)
      \<in> set (fst (syncSession signed_in sample_time sample_record))
   \<and> created_at (insert_payload sample_record student sample_time) = Some sample_time"
proof -
  have h: "Insert ''sessions'' (insert_payload sample_record student sample_time)
      \<in> set (fst (syncSession signed_in sample_time sample_record))"
    by (simp add: syncSession_def syncSession_try_def run_defs platform_defs)
  from insert_payload_created_at [of signed_in sample_time sample_record] h
  show ?thesis by blast
qed

end
